theory Spec2Isabelle
  imports Main
begin

section \<open>Constants of google.py\<close>

definition CONFESSIONS_SPREADSHEET_ID :: string where
  "CONFESSIONS_SPREADSHEET_ID = ''1eyPP0nEnivMe9fS_y1Z8EKwY02f8rETxKK1RmaRlKYs''"

definition CONFESSION_SHEET_ID :: string where
  "CONFESSION_SHEET_ID = ''444158458''"

definition CONFESSION_READY_LENGTH :: nat where
  "CONFESSION_READY_LENGTH = 3"

definition ROWS_DIMENSION :: string where
  "ROWS_DIMENSION = ''ROWS''"

definition READY_CONFESSIONS_A1_FORMAT :: string where
  "READY_CONFESSIONS_A1_FORMAT = ''Form Responses 1!A:C''"

definition ARCHIVE_RANGE :: string where
  "ARCHIVE_RANGE = ''Archive!A:C''"

definition PUBLISHED_TIME_FORMAT :: string where
  "PUBLISHED_TIME_FORMAT = ''%m/%j/%Y %H:%M:%S''"

definition RAW_INPUT_OPTION :: string where
  "RAW_INPUT_OPTION = ''RAW''"

definition PARSE_DATA_INPUT_OPTION :: string where
  "PARSE_DATA_INPUT_OPTION = ''USER_ENTERED''"

definition DATE_PUBLISHED_DICT_KEY :: string where
  "DATE_PUBLISHED_DICT_KEY = ''Date Published''"

definition CONFESSION_DICT_KEY :: string where
  "CONFESSION_DICT_KEY = ''Confession''"

definition LINE_NUMBER_DICT_KEY :: string where
  "LINE_NUMBER_DICT_KEY = ''Line Number''"

definition DATE_RECEIVED_INDEX :: nat where
  "DATE_RECEIVED_INDEX = 0"

definition CONFESSION_INDEX :: nat where
  "CONFESSION_INDEX = 1"

section \<open>Data\<close>

text \<open>
  A raw row is the list of string cells the spreadsheet returns for one line. The values
  stored in a confession dictionary are strings (the cells) and a Python integer (the
  line number); the dictionary itself is a finite map from keys to such values.
\<close>

type_synonym raw_row = "string list"

datatype pyval = PStr string | PInt int

type_synonym confession = "string \<rightharpoonup> pyval"

text \<open>
  The exceptions the modelled code can raise: a failed attribute lookup on an object, a
  missing dictionary key, and any failure of a remote call (network, credentials, quota),
  which the code never catches.
\<close>

datatype error = AttributeError string | KeyError string | RemoteError string

text \<open>The request bodies built by \<open>add_row\<close> and \<open>delete_rows\<close>.\<close>

record append_body =
  body_values :: "pyval list"

record dimension_range =
  sheetId :: string
  dimension :: string
  startIndex :: int
  endIndex :: int

datatype request = DeleteDimension dimension_range

record batch_body =
  requests :: "request list"

text \<open>
  The three remote endpoints the code calls, each with the keyword arguments it passes:
  \<open>values().get(spreadsheetId, range)\<close>,
  \<open>values().append(spreadsheetId, range, valueInputOption, body)\<close> and
  \<open>batchUpdate(spreadsheetId, body)\<close>.
\<close>

datatype api_call =
    ValuesGet string string
  | ValuesAppend string string string append_body
  | BatchUpdate string batch_body

text \<open>
  The dictionary a remote call answers with. The code reads one key of it only,
  \<open>"values"\<close>, and only after a read; \<open>None\<close> is a dictionary without that key.
\<close>

record response =
  resp_values :: "raw_row list option"

text \<open>
  A \<open>Sheet\<close> object: its spreadsheet id and its connection to the remote service. The
  service is a parameter: given the calls issued before, it answers a call with a
  response or fails.
\<close>

record sheet =
  self_id :: string
  remote :: "api_call list \<Rightarrow> api_call \<Rightarrow> error + response"

record datetime =
  year :: nat
  month :: nat
  day :: nat
  hour :: nat
  minute :: nat
  second :: nat

text \<open>
  The world outside the program: the remote calls issued so far, oldest first, and the
  wall clock, read by \<open>datetime.datetime.now()\<close>.
\<close>

record world =
  calls :: "api_call list"
  wall_clock :: "nat \<Rightarrow> datetime"
  clock_reads :: nat

definition execute :: "sheet \<Rightarrow> api_call \<Rightarrow> world \<Rightarrow> (error + response) \<times> world" where
  "execute self c w = (remote self (calls w) c, w\<lparr>calls := calls w @ [c]\<rparr>)"

definition datetime_now :: "world \<Rightarrow> datetime \<times> world" where
  "datetime_now w = (wall_clock w (clock_reads w), w\<lparr>clock_reads := Suc (clock_reads w)\<rparr>)"

section \<open>The library function strftime\<close>

text \<open>
  Python's \<open>strftime\<close> on the directives of the C standard that the format strings of
  this program can hold: zero-padded decimal fields. \<open>%d\<close> is the day of the month,
  \<open>%j\<close> the day of the year.
\<close>

definition digit_char :: "nat \<Rightarrow> char" where
  "digit_char d = ''0123456789'' ! (d mod 10)"

fun dec :: "nat \<Rightarrow> string" where
  "dec n = (if n < 10 then [digit_char n] else dec (n div 10) @ [digit_char (n mod 10)])"

declare dec.simps [simp del]

definition zfill :: "nat \<Rightarrow> string \<Rightarrow> string" where
  "zfill k s = replicate (k - length s) (CHR ''0'') @ s"

definition is_leap :: "nat \<Rightarrow> bool" where
  "is_leap y = (if y mod 400 = 0 then True else if y mod 100 = 0 then False else y mod 4 = 0)"

definition days_in_months :: "nat \<Rightarrow> nat list" where
  "days_in_months y = [31, if is_leap y then 29 else 28, 31, 30, 31, 30, 31, 31, 30, 31, 30, 31]"

definition day_of_year :: "datetime \<Rightarrow> nat" where
  "day_of_year dt = sum_list (take (month dt - 1) (days_in_months (year dt))) + day dt"

definition directive :: "datetime \<Rightarrow> char \<Rightarrow> string" where
  "directive dt c =
     (if c = CHR ''m'' then zfill 2 (dec (month dt))
      else if c = CHR ''d'' then zfill 2 (dec (day dt))
      else if c = CHR ''j'' then zfill 3 (dec (day_of_year dt))
      else if c = CHR ''Y'' then zfill 4 (dec (year dt))
      else if c = CHR ''H'' then zfill 2 (dec (hour dt))
      else if c = CHR ''M'' then zfill 2 (dec (minute dt))
      else if c = CHR ''S'' then zfill 2 (dec (second dt))
      else if c = CHR ''%'' then ''%''
      else [CHR ''%'', c])"

fun strftime :: "datetime \<Rightarrow> string \<Rightarrow> string" where
  "strftime dt [] = []"
| "strftime dt [c] = [c]"
| "strftime dt (c # d # rest) =
     (if c = CHR ''%'' then directive dt d @ strftime dt rest
      else c # strftime dt (d # rest))"

section \<open>class Sheet\<close>

definition get_data :: "sheet \<Rightarrow> string \<Rightarrow> world \<Rightarrow> (error + raw_row list) \<times> world" where
  "get_data self data_range w =
     (case execute self (ValuesGet (self_id self) data_range) w of
        (Inl e, w') \<Rightarrow> (Inl e, w')
      | (Inr result, w') \<Rightarrow>
          (Inr (case resp_values result of None \<Rightarrow> [] | Some v \<Rightarrow> v), w'))"

definition add_row ::
  "sheet \<Rightarrow> pyval list \<Rightarrow> string \<Rightarrow> bool \<Rightarrow> world \<Rightarrow> (error + unit) \<times> world" where
  "add_row self data data_range raw_input_option w =
     (let input_option = (if raw_input_option then RAW_INPUT_OPTION else PARSE_DATA_INPUT_OPTION);
          body = \<lparr>body_values = data\<rparr>
      in case execute self (ValuesAppend (self_id self) data_range input_option body) w of
           (Inl e, w') \<Rightarrow> (Inl e, w')
         | (Inr _, w') \<Rightarrow> (Inr (), w'))"

text \<open>
  \<open>sorted(list(set(rows)), reverse=True)\<close>: the distinct row numbers, largest first.
  The order in which Python lists a set does not matter, since the list is sorted next.
\<close>

definition sorted_set_reverse :: "int list \<Rightarrow> int list" where
  "sorted_set_reverse rows = rev (sort (remdups rows))"

text \<open>The loop of \<open>delete_rows\<close>: one request appended to the body for each row.\<close>

fun delete_row_requests :: "string \<Rightarrow> int list \<Rightarrow> batch_body \<Rightarrow> batch_body" where
  "delete_row_requests sheet_id [] body = body"
| "delete_row_requests sheet_id (row # rows) body =
     delete_row_requests sheet_id rows
       (body\<lparr>requests := requests body @
          [DeleteDimension \<lparr>sheetId = sheet_id, dimension = ROWS_DIMENSION,
                            startIndex = row - 1, endIndex = row\<rparr>]\<rparr>)"

definition delete_rows :: "sheet \<Rightarrow> string \<Rightarrow> int list \<Rightarrow> world \<Rightarrow> (error + unit) \<times> world" where
  "delete_rows self sheet_id rows w =
     (let rows' = sorted_set_reverse rows;
          body = delete_row_requests sheet_id rows' \<lparr>requests = []\<rparr>
      in case execute self (BatchUpdate (self_id self) body) w of
           (Inl e, w') \<Rightarrow> (Inl e, w')
         | (Inr _, w') \<Rightarrow> (Inr (), w'))"

section \<open>class ConfessionsSheet\<close>

text \<open>
  The loop of \<open>get_ready_confessions\<close> over \<open>enumerate(raw_confessions)\<close>: \<open>number\<close> is
  the running index, \<open>processed_confessions\<close> the list built so far, and \<open>data\<close> the
  dictionary literal built for a row of the ready length (where both cells read exist).
\<close>

definition data :: "int \<Rightarrow> raw_row \<Rightarrow> confession" where
  "data number confession =
     [DATE_PUBLISHED_DICT_KEY \<mapsto> PStr (confession ! DATE_RECEIVED_INDEX),
      CONFESSION_DICT_KEY \<mapsto> PStr (confession ! CONFESSION_INDEX),
      LINE_NUMBER_DICT_KEY \<mapsto> PInt (number + 1)]"

fun ready_loop :: "int \<Rightarrow> raw_row list \<Rightarrow> confession list \<Rightarrow> confession list" where
  "ready_loop number [] processed_confessions = processed_confessions"
| "ready_loop number (confession # rest) processed_confessions =
     ready_loop (number + 1) rest
       (if length confession = CONFESSION_READY_LENGTH
        then processed_confessions @ [data number confession]
        else processed_confessions)"

definition get_ready_confessions :: "sheet \<Rightarrow> world \<Rightarrow> (error + confession list) \<times> world" where
  "get_ready_confessions self w =
     (case get_data self READY_CONFESSIONS_A1_FORMAT w of
        (Inl e, w') \<Rightarrow> (Inl e, w')
      | (Inr raw_confessions, w') \<Rightarrow> (Inr (ready_loop 0 raw_confessions []), w'))"

text \<open>\<open>confession[key]\<close>: a missing key raises \<open>KeyError\<close>.\<close>

definition subscript :: "confession \<Rightarrow> string \<Rightarrow> error + pyval" where
  "subscript confession key =
     (case confession key of None \<Rightarrow> Inl (KeyError key) | Some v \<Rightarrow> Inr v)"

text \<open>
  \<open>_add_confession_to_archive\<close>: the clock is read first, then the row is built left to
  right, then the row is appended with the default \<open>raw_input_option=True\<close>.
\<close>

definition add_confession_to_archive ::
  "sheet \<Rightarrow> confession \<Rightarrow> world \<Rightarrow> (error + unit) \<times> world" where
  "add_confession_to_archive self confession w =
     (case datetime_now w of
        (current_time, w1) \<Rightarrow>
          (case subscript confession DATE_PUBLISHED_DICT_KEY of
             Inl e \<Rightarrow> (Inl e, w1)
           | Inr date \<Rightarrow>
               (case subscript confession CONFESSION_DICT_KEY of
                  Inl e \<Rightarrow> (Inl e, w1)
                | Inr text \<Rightarrow>
                    add_row self
                      [date, PStr (strftime current_time PUBLISHED_TIME_FORMAT), text]
                      ARCHIVE_RANGE True w1)))"

text \<open>
  The list comprehension of \<open>_delete_confessions_from_pool\<close>, which stops at the first
  confession without a line number.
\<close>

fun line_numbers_of :: "confession list \<Rightarrow> error + pyval list" where
  "line_numbers_of [] = Inr []"
| "line_numbers_of (confession # rest) =
     (case subscript confession LINE_NUMBER_DICT_KEY of
        Inl e \<Rightarrow> Inl e
      | Inr n \<Rightarrow> (case line_numbers_of rest of Inl e \<Rightarrow> Inl e | Inr ns \<Rightarrow> Inr (n # ns)))"

text \<open>
  \<open>_delete_confessions_from_pool\<close> collects the line numbers and then evaluates
  \<open>self.delete_row\<close>. Neither \<open>ConfessionsSheet\<close> nor \<open>Sheet\<close> defines an attribute of
  that name (the method of \<open>Sheet\<close> is \<open>delete_rows\<close>), so the lookup raises
  \<open>AttributeError\<close> before anything is called.
\<close>

definition delete_confessions_from_pool ::
  "sheet \<Rightarrow> confession list \<Rightarrow> world \<Rightarrow> (error + unit) \<times> world" where
  "delete_confessions_from_pool self confessions w =
     (case line_numbers_of confessions of
        Inl e \<Rightarrow> (Inl e, w)
      | Inr line_numbers \<Rightarrow> (Inl (AttributeError ''delete_row''), w))"

text \<open>The loop of \<open>archive_confessions\<close>: an exception ends it.\<close>

fun archive_loop :: "sheet \<Rightarrow> confession list \<Rightarrow> world \<Rightarrow> (error + unit) \<times> world" where
  "archive_loop self [] w = (Inr (), w)"
| "archive_loop self (confession # rest) w =
     (case add_confession_to_archive self confession w of
        (Inl e, w') \<Rightarrow> (Inl e, w')
      | (Inr _, w') \<Rightarrow> archive_loop self rest w')"

definition archive_confessions ::
  "sheet \<Rightarrow> confession list \<Rightarrow> world \<Rightarrow> (error + unit) \<times> world" where
  "archive_confessions self confessions w =
     (case archive_loop self confessions w of
        (Inl e, w') \<Rightarrow> (Inl e, w')
      | (Inr _, w') \<Rightarrow> delete_confessions_from_pool self confessions w')"

section \<open>Reading requests, and concrete inputs\<close>

text \<open>The 1-based row number a deletion request removes: the row after its start index.\<close>

fun target_row :: "request \<Rightarrow> int" where
  "target_row (DeleteDimension r) = startIndex r + 1"

fun is_batch_update :: "api_call \<Rightarrow> bool" where
  "is_batch_update (BatchUpdate sid body) = True"
| "is_batch_update c = False"

text \<open>
  The timestamp the specification describes: month, day of the year, year, then hour,
  minute and second, each zero-padded.
\<close>

definition spec_published_timestamp :: "datetime \<Rightarrow> string" where
  "spec_published_timestamp dt =
     zfill 2 (dec (month dt)) @ ''/'' @ zfill 3 (dec (day_of_year dt)) @ ''/'' @
     zfill 4 (dec (year dt)) @ '' '' @ zfill 2 (dec (hour dt)) @ '':'' @
     zfill 2 (dec (minute dt)) @ '':'' @ zfill 2 (dec (second dt))"

text \<open>
  A sheet whose remote service accepts every call and answers it with the given
  \<open>"values"\<close> entry; a world with no call issued yet and a clock standing at one time;
  and the rows and records of the examples.
\<close>

definition serving :: "raw_row list option \<Rightarrow> sheet" where
  "serving vs =
     \<lparr>self_id = CONFESSIONS_SPREADSHEET_ID, remote = (\<lambda>history c. Inr \<lparr>resp_values = vs\<rparr>)\<rparr>"

definition at_time :: "datetime \<Rightarrow> world" where
  "at_time dt = \<lparr>calls = [], wall_clock = (\<lambda>n. dt), clock_reads = 0\<rparr>"

definition saturday :: datetime where
  "saturday = \<lparr>year = 2017, month = 2, day = 25, hour = 13, minute = 5, second = 9\<rparr>"

definition five_rows :: "raw_row list" where
  "five_rows =
     [[''d1''], [''d2'', ''c2''], [''d3'', ''c3'', ''x''], [''d4'', ''c4''], [''d5'', ''c5'', ''x'']]"

definition hello_rows :: "raw_row list" where
  "hello_rows = [[''2023-01-01 10:00:00'', ''hello world'', ''x'']]"

definition two_ready :: "confession list" where
  "two_ready =
     [[''Date Published'' \<mapsto> PStr ''d2'', ''Confession'' \<mapsto> PStr ''c2'', ''Line Number'' \<mapsto> PInt 2],
      [''Date Published'' \<mapsto> PStr ''d3'', ''Confession'' \<mapsto> PStr ''c3'', ''Line Number'' \<mapsto> PInt 3]]"

text \<open>
  The append that archiving issues for a record \<open>d\<close> when the clock reads \<open>now\<close>: the
  values under its date and text keys, around the timestamp.
\<close>

definition archive_call :: "sheet \<Rightarrow> datetime \<Rightarrow> confession \<Rightarrow> api_call" where
  "archive_call self now d =
     ValuesAppend (self_id self) ARCHIVE_RANGE RAW_INPUT_OPTION
       \<lparr>body_values = [the (d DATE_PUBLISHED_DICT_KEY),
          PStr (strftime now PUBLISHED_TIME_FORMAT), the (d CONFESSION_DICT_KEY)]\<rparr>"

section \<open>Sheet.delete_rows\<close>

lemma delete_row_requests_eq:
  "delete_row_requests sid rows body =
     body\<lparr>requests := requests body @
       map (\<lambda>row. DeleteDimension \<lparr>sheetId = sid, dimension = ROWS_DIMENSION,
                            startIndex = row - 1, endIndex = row\<rparr>) rows\<rparr>"
  by (induction rows arbitrary: body) simp_all

lemma sorted_set_reverse_descending: "sorted_wrt (>) (sorted_set_reverse rows)"
  by (simp add: sorted_set_reverse_def sorted_wrt_rev strict_sorted_iff)

lemma set_sorted_set_reverse: "set (sorted_set_reverse rows) = set rows"
  by (simp add: sorted_set_reverse_def)

lemma length_sorted_set_reverse: "length (sorted_set_reverse rows) = card (set rows)"
  by (simp add: sorted_set_reverse_def length_remdups_card_conv)

lemma calls_delete_rows:
  "calls (snd (delete_rows self sheet_id rows w)) =
     calls w @ [BatchUpdate (self_id self)
       \<lparr>requests = map (\<lambda>row. DeleteDimension \<lparr>sheetId = sheet_id, dimension = ROWS_DIMENSION,
                            startIndex = row - 1, endIndex = row\<rparr>) (sorted_set_reverse rows)\<rparr>]"
  by (simp add: delete_rows_def execute_def delete_row_requests_eq Let_def split: sum.splits)

lemma target_row_requests:
  "map target_row (map (\<lambda>row. DeleteDimension \<lparr>sheetId = sid, dimension = d,
                            startIndex = row - 1, endIndex = row\<rparr>) rows) = rows"
  by (induction rows) simp_all

text \<open>
  C3. Whatever list of row numbers \<open>delete_rows\<close> is given, and whether or not the remote
  call succeeds, it issues one batch update whose requests target the row numbers in
  strictly descending order (so no row twice), the rows targeted are exactly the rows of
  the input, and there is one request for each distinct row number.
\<close>

theorem delete_rows_descending_distinct:
  "\<exists>body. calls (snd (delete_rows self sheet_id rows w)) =
       calls w @ [BatchUpdate (self_id self) body]
     \<and> sorted_wrt (>) (map target_row (requests body))
     \<and> set (map target_row (requests body)) = set rows
     \<and> length (requests body) = card (set rows)"
  by (simp add: calls_delete_rows target_row_requests sorted_set_reverse_descending
      set_sorted_set_reverse length_sorted_set_reverse del: set_map map_map)

text \<open>The input \<open>[5, 2, 2, 8]\<close> gives requests for the rows 8, 5, 2, in that order.\<close>

theorem delete_rows_descending_distinct_witness:
  "\<exists>body. calls (snd (delete_rows (serving None) CONFESSION_SHEET_ID [5, 2, 2, 8] (at_time saturday))) =
       [BatchUpdate CONFESSIONS_SPREADSHEET_ID body]
     \<and> map target_row (requests body) = [8, 5, 2]"
proof -
  obtain body where
    b: "calls (snd (delete_rows (serving None) CONFESSION_SHEET_ID [5, 2, 2, 8] (at_time saturday))) =
       calls (at_time saturday) @ [BatchUpdate (self_id (serving None)) body]"
    using delete_rows_descending_distinct
      [of "serving None" CONFESSION_SHEET_ID "[5, 2, 2, 8]" "at_time saturday"]
    by blast
  have "calls (snd (delete_rows (serving None) CONFESSION_SHEET_ID [5, 2, 2, 8] (at_time saturday))) =
      [BatchUpdate CONFESSIONS_SPREADSHEET_ID
        \<lparr>requests = map (\<lambda>row. DeleteDimension \<lparr>sheetId = CONFESSION_SHEET_ID,
            dimension = ROWS_DIMENSION, startIndex = row - 1, endIndex = row\<rparr>) [8, 5, 2]\<rparr>]"
    by (simp add: calls_delete_rows sorted_set_reverse_def serving_def at_time_def)
  then show ?thesis using b by simp
qed

text \<open>
  C7. The requests of the batch are, for each row number \<open>n\<close> of the deduplicated
  descending list and in that order, a delete-dimension operation with the worksheet id
  passed in, the dimension \<open>"ROWS"\<close>, start index \<open>n - 1\<close> and end index \<open>n\<close>; each
  request spans one row.
\<close>

theorem delete_rows_request_shape:
  "\<exists>body. calls (snd (delete_rows self sheet_id rows w)) =
       calls w @ [BatchUpdate (self_id self) body]
     \<and> requests body =
         map (\<lambda>n. DeleteDimension \<lparr>sheetId = sheet_id, dimension = ''ROWS'',
                                     startIndex = n - 1, endIndex = n\<rparr>) (sorted_set_reverse rows)
     \<and> list_all (\<lambda>r. case r of DeleteDimension d \<Rightarrow> endIndex d - startIndex d = 1)
         (requests body)"
  by (simp add: calls_delete_rows ROWS_DIMENSION_def list_all_iff)

theorem delete_rows_request_shape_witness:
  "calls (snd (delete_rows (serving None) CONFESSION_SHEET_ID [2, 3] (at_time saturday))) =
     [BatchUpdate CONFESSIONS_SPREADSHEET_ID
        \<lparr>requests =
           [DeleteDimension \<lparr>sheetId = ''444158458'', dimension = ''ROWS'',
                             startIndex = 2, endIndex = 3\<rparr>,
            DeleteDimension \<lparr>sheetId = ''444158458'', dimension = ''ROWS'',
                             startIndex = 1, endIndex = 2\<rparr>]\<rparr>]"
  using delete_rows_request_shape [of "serving None" CONFESSION_SHEET_ID "[2, 3]" "at_time saturday"]
  by (auto simp: sorted_set_reverse_def serving_def at_time_def CONFESSION_SHEET_ID_def)

text \<open>
  C10. Called with an empty list of rows, \<open>delete_rows\<close> still issues one batch update,
  and the body of that call holds an empty list of requests.
\<close>

theorem delete_rows_empty_still_calls:
  "calls (snd (delete_rows self sheet_id [] w)) =
     calls w @ [BatchUpdate (self_id self) \<lparr>requests = []\<rparr>]"
  by (simp add: calls_delete_rows sorted_set_reverse_def)

theorem delete_rows_empty_still_calls_witness:
  "calls (snd (delete_rows (serving None) CONFESSION_SHEET_ID [] (at_time saturday))) =
     [BatchUpdate CONFESSIONS_SPREADSHEET_ID \<lparr>requests = []\<rparr>]"
  using delete_rows_empty_still_calls [of "serving None" CONFESSION_SHEET_ID "at_time saturday"]
  by (simp add: serving_def at_time_def)

section \<open>Sheet.get_data\<close>

lemma get_data_serving:
  "fst (get_data (serving (Some rows)) data_range w) = Inr rows"
  by (simp add: get_data_def execute_def serving_def)

text \<open>
  C8. For every range, when the remote read succeeds with a result that has no
  \<open>"values"\<close> entry, \<open>get_data\<close> returns the empty list and raises nothing.
\<close>

theorem get_data_no_values:
  assumes "remote self (calls w) (ValuesGet (self_id self) data_range) = Inr result"
    and "resp_values result = None"
  shows "fst (get_data self data_range w) = Inr []"
  using assms by (simp add: get_data_def execute_def)

theorem get_data_no_values_witness:
  "remote (serving None) (calls (at_time saturday))
       (ValuesGet (self_id (serving None)) READY_CONFESSIONS_A1_FORMAT) = Inr \<lparr>resp_values = None\<rparr>
   \<and> fst (get_data (serving None) READY_CONFESSIONS_A1_FORMAT (at_time saturday)) = Inr []"
proof -
  have h: "remote (serving None) (calls (at_time saturday))
       (ValuesGet (self_id (serving None)) READY_CONFESSIONS_A1_FORMAT) = Inr \<lparr>resp_values = None\<rparr>"
    by (simp add: serving_def)
  show ?thesis using h get_data_no_values [OF h] by simp
qed

section \<open>ConfessionsSheet.get_ready_confessions\<close>

lemma ready_loop_eq:
  assumes "0 \<le> n"
  shows "ready_loop n rows acc =
     acc @ map (\<lambda>(i, r). data (int i) r)
         (filter (\<lambda>(i, r). length r = CONFESSION_READY_LENGTH) (enumerate (nat n) rows))"
  using assms
proof (induction rows arbitrary: n acc)
  case Nil
  then show ?case by simp
next
  case (Cons r rows)
  have "nat (n + 1) = Suc (nat n)" using Cons.prems by simp
  then show ?case using Cons.IH [of "n + 1"] Cons.prems by simp
qed

lemma get_ready_confessions_eq:
  "get_ready_confessions self w =
     (case get_data self READY_CONFESSIONS_A1_FORMAT w of
        (Inl e, w') \<Rightarrow> (Inl e, w')
      | (Inr raw, w') \<Rightarrow>
          (Inr (map (\<lambda>(i, r). data (int i) r)
             (filter (\<lambda>(i, r). length r = CONFESSION_READY_LENGTH) (enumerate 0 raw))), w'))"
  by (simp add: get_ready_confessions_def ready_loop_eq split: prod.splits sum.splits)

lemma fst_get_ready_confessions:
  assumes "fst (get_data self READY_CONFESSIONS_A1_FORMAT w) = Inr raw"
  shows "fst (get_ready_confessions self w) =
     Inr (map (\<lambda>(i, r). data (int i) r)
             (filter (\<lambda>(i, r). length r = CONFESSION_READY_LENGTH) (enumerate 0 raw)))"
  using assms
  by (cases "get_data self READY_CONFESSIONS_A1_FORMAT w") (auto simp: get_ready_confessions_eq)

text \<open>
  C2. Whatever rows are fetched, \<open>get_ready_confessions\<close> returns normally, and its
  result is built from exactly the rows of length 3, in their order, the row at 0-based
  position \<open>i\<close> getting line number \<open>i + 1\<close>. Rows of any other length leave no trace:
  no record and no error.
\<close>

theorem get_ready_confessions_keeps_ready_rows:
  assumes "fst (get_data self READY_CONFESSIONS_A1_FORMAT w) = Inr raw_confessions"
  shows "fst (get_ready_confessions self w) =
     Inr (map (\<lambda>(i, r). [DATE_PUBLISHED_DICT_KEY \<mapsto> PStr (r ! 0),
                           CONFESSION_DICT_KEY \<mapsto> PStr (r ! 1),
                           LINE_NUMBER_DICT_KEY \<mapsto> PInt (int i + 1)])
             (filter (\<lambda>(i, r). length r = 3) (enumerate 0 raw_confessions)))"
  using fst_get_ready_confessions [OF assms]
  unfolding data_def CONFESSION_READY_LENGTH_def DATE_RECEIVED_INDEX_def CONFESSION_INDEX_def
  by (simp only: )

text \<open>Rows of lengths 1, 2, 3, 2, 3 give two records, with line numbers 3 and 5.\<close>

theorem get_ready_confessions_keeps_ready_rows_witness:
  "fst (get_data (serving (Some five_rows)) READY_CONFESSIONS_A1_FORMAT (at_time saturday)) =
     Inr five_rows
   \<and> fst (get_ready_confessions (serving (Some five_rows)) (at_time saturday)) =
      Inr [[''Date Published'' \<mapsto> PStr ''d3'', ''Confession'' \<mapsto> PStr ''c3'',
            ''Line Number'' \<mapsto> PInt 3],
           [''Date Published'' \<mapsto> PStr ''d5'', ''Confession'' \<mapsto> PStr ''c5'',
            ''Line Number'' \<mapsto> PInt 5]]"
proof -
  have h: "fst (get_data (serving (Some five_rows)) READY_CONFESSIONS_A1_FORMAT (at_time saturday)) =
      Inr five_rows"
    by (rule get_data_serving)
  show ?thesis using h get_ready_confessions_keeps_ready_rows [OF h]
    by (simp add: five_rows_def enumerate_eq_zip upt_rec
        DATE_PUBLISHED_DICT_KEY_def CONFESSION_DICT_KEY_def LINE_NUMBER_DICT_KEY_def)
qed

lemma filter_enumerate_nth:
  assumes "i < length rows" and "P (rows ! i)"
  shows "length (filter P (take i rows)) < length (filter (\<lambda>(j, r). P r) (enumerate k rows))
    \<and> filter (\<lambda>(j, r). P r) (enumerate k rows) ! length (filter P (take i rows)) =
        (k + i, rows ! i)"
  using assms
proof (induction rows arbitrary: i k)
  case Nil
  then show ?case by simp
next
  case (Cons r rows)
  show ?case
  proof (cases i)
    case 0
    then show ?thesis using Cons.prems by simp
  next
    case (Suc j)
    then have "j < length rows" "P (rows ! j)" using Cons.prems by simp_all
    from Cons.IH [OF this, of "Suc k"] show ?thesis using Suc by simp
  qed
qed

text \<open>
  C4. A fetched row of length 3 at 0-based position \<open>i\<close> yields the record holding cell 0
  as the date, cell 1 as the text and \<open>i + 1\<close> as the line number, and nothing else (the
  marker in cell 2 is not kept). The record stands in the result after the records of
  the ready rows before position \<open>i\<close>.
\<close>

theorem get_ready_confessions_field_mapping:
  assumes "fst (get_data self READY_CONFESSIONS_A1_FORMAT w) = Inr rows"
    and "i < length rows" and "length (rows ! i) = 3"
  shows "\<exists>cs. fst (get_ready_confessions self w) = Inr cs
     \<and> length (filter (\<lambda>r. length r = 3) (take i rows)) < length cs
     \<and> cs ! length (filter (\<lambda>r. length r = 3) (take i rows)) =
         [''Date Published'' \<mapsto> PStr (rows ! i ! 0),
          ''Confession'' \<mapsto> PStr (rows ! i ! 1),
          ''Line Number'' \<mapsto> PInt (int i + 1)]"
proof -
  let ?P = "\<lambda>r::raw_row. length r = 3"
  let ?k = "length (filter ?P (take i rows))"
  let ?fs = "filter (\<lambda>(j, r). ?P r) (enumerate 0 rows)"
  have nth: "?k < length ?fs" "?fs ! ?k = (0 + i, rows ! i)"
    using filter_enumerate_nth [of i rows ?P 0] assms(2,3) by simp_all
  have res: "fst (get_ready_confessions self w) = Inr (map (\<lambda>(i, r). data (int i) r) ?fs)"
    using fst_get_ready_confessions [OF assms(1)] by (simp add: CONFESSION_READY_LENGTH_def)
  have "map (\<lambda>(i, r). data (int i) r) ?fs ! ?k = data (int i) (rows ! i)"
    using nth by simp
  also have "\<dots> = [''Date Published'' \<mapsto> PStr (rows ! i ! 0),
          ''Confession'' \<mapsto> PStr (rows ! i ! 1),
          ''Line Number'' \<mapsto> PInt (int i + 1)]"
    by (simp add: data_def DATE_PUBLISHED_DICT_KEY_def CONFESSION_DICT_KEY_def
        LINE_NUMBER_DICT_KEY_def DATE_RECEIVED_INDEX_def CONFESSION_INDEX_def)
  finally show ?thesis using res nth(1) by simp
qed

theorem get_ready_confessions_field_mapping_witness:
  "fst (get_data (serving (Some hello_rows)) READY_CONFESSIONS_A1_FORMAT (at_time saturday)) =
     Inr hello_rows
   \<and> (0::nat) < length hello_rows \<and> length (hello_rows ! 0) = 3
   \<and> (\<exists>cs. fst (get_ready_confessions (serving (Some hello_rows)) (at_time saturday)) = Inr cs
        \<and> cs ! 0 = [''Date Published'' \<mapsto> PStr ''2023-01-01 10:00:00'',
                    ''Confession'' \<mapsto> PStr ''hello world'',
                    ''Line Number'' \<mapsto> PInt 1])"
proof -
  have h: "fst (get_data (serving (Some hello_rows)) READY_CONFESSIONS_A1_FORMAT (at_time saturday)) =
      Inr hello_rows"
    by (rule get_data_serving)
  have i: "(0::nat) < length hello_rows" and l: "length (hello_rows ! 0) = 3"
    by (simp_all add: hello_rows_def)
  show ?thesis using h i l get_ready_confessions_field_mapping [OF h i l]
    by (auto simp: hello_rows_def)
qed

section \<open>Archiving one confession\<close>

lemma strftime_published:
  "strftime dt PUBLISHED_TIME_FORMAT = spec_published_timestamp dt"
  by (simp add: PUBLISHED_TIME_FORMAT_def directive_def spec_published_timestamp_def)

lemma add_confession_to_archive_present:
  assumes "confession DATE_PUBLISHED_DICT_KEY = Some D"
    and "confession CONFESSION_DICT_KEY = Some T"
  shows "add_confession_to_archive self confession w =
     add_row self [D, PStr (strftime (wall_clock w (clock_reads w)) PUBLISHED_TIME_FORMAT), T]
       ARCHIVE_RANGE True (w\<lparr>clock_reads := Suc (clock_reads w)\<rparr>)"
  using assms by (simp add: add_confession_to_archive_def datetime_now_def subscript_def)

lemma calls_add_row:
  "calls (snd (add_row self row data_range raw w)) =
     calls w @ [ValuesAppend (self_id self) data_range
        (if raw then RAW_INPUT_OPTION else PARSE_DATA_INPUT_OPTION) \<lparr>body_values = row\<rparr>]"
  by (simp add: add_row_def execute_def Let_def split: sum.splits)

lemma add_confession_to_archive_ignores_line_number:
  "add_confession_to_archive self (confession(LINE_NUMBER_DICT_KEY := n)) w =
     add_confession_to_archive self confession w"
proof -
  have a: "subscript (confession(LINE_NUMBER_DICT_KEY := n)) DATE_PUBLISHED_DICT_KEY =
      subscript confession DATE_PUBLISHED_DICT_KEY"
    by (simp add: subscript_def LINE_NUMBER_DICT_KEY_def DATE_PUBLISHED_DICT_KEY_def)
  have b: "subscript (confession(LINE_NUMBER_DICT_KEY := n)) CONFESSION_DICT_KEY =
      subscript confession CONFESSION_DICT_KEY"
    by (simp add: subscript_def LINE_NUMBER_DICT_KEY_def CONFESSION_DICT_KEY_def)
  show ?thesis unfolding add_confession_to_archive_def a b by (rule refl)
qed

lemma dec_2: "dec 2 = ''2''" and dec_56: "dec 56 = ''56''" and dec_2017: "dec 2017 = ''2017''"
  and dec_13: "dec 13 = ''13''" and dec_5: "dec 5 = ''5''" and dec_9: "dec 9 = ''9''"
  by (simp_all add: dec.simps digit_char_def)

lemma spec_published_timestamp_saturday:
  "spec_published_timestamp saturday = ''02/056/2017 13:05:09''"
  by (simp add: spec_published_timestamp_def saturday_def day_of_year_def days_in_months_def
      is_leap_def zfill_def dec_2 dec_56 dec_2017 dec_13 dec_5 dec_9)

text \<open>
  C5. Archiving a record whose date is \<open>D\<close> and whose text is \<open>T\<close> issues one append to
  the archive range, in raw input mode, of the three cells \<open>D\<close>, the timestamp and \<open>T\<close>.
  The timestamp is the clock reading of that moment written as month, day of the year,
  year, hour, minute, second. Changing or removing the record's line number changes
  nothing of what the operation does.
\<close>

theorem add_confession_to_archive_row:
  assumes "confession DATE_PUBLISHED_DICT_KEY = Some D"
    and "confession CONFESSION_DICT_KEY = Some T"
  shows "calls (snd (add_confession_to_archive self confession w)) =
       calls w @ [ValuesAppend (self_id self) ARCHIVE_RANGE RAW_INPUT_OPTION
         \<lparr>body_values =
            [D, PStr (spec_published_timestamp (wall_clock w (clock_reads w))), T]\<rparr>]
     \<and> add_confession_to_archive self (confession(LINE_NUMBER_DICT_KEY := n)) w =
         add_confession_to_archive self confession w"
  by (simp add: add_confession_to_archive_present [OF assms] calls_add_row strftime_published
      add_confession_to_archive_ignores_line_number)

text \<open>On 25 February 2017, the 56th day of the year, the timestamp reads 02/056/2017.\<close>

theorem add_confession_to_archive_row_witness:
  "calls (snd (add_confession_to_archive (serving None)
       [''Date Published'' \<mapsto> PStr ''D'', ''Confession'' \<mapsto> PStr ''T'',
        ''Line Number'' \<mapsto> PInt 7]
       (at_time saturday))) =
     [ValuesAppend CONFESSIONS_SPREADSHEET_ID ''Archive!A:C'' ''RAW''
        \<lparr>body_values = [PStr ''D'', PStr ''02/056/2017 13:05:09'', PStr ''T'']\<rparr>]"
proof -
  let ?c = "[''Date Published'' \<mapsto> PStr ''D'', ''Confession'' \<mapsto> PStr ''T'',
        ''Line Number'' \<mapsto> PInt 7]"
  have d: "?c DATE_PUBLISHED_DICT_KEY = Some (PStr ''D'')"
    and t: "?c CONFESSION_DICT_KEY = Some (PStr ''T'')"
    by (simp_all add: DATE_PUBLISHED_DICT_KEY_def CONFESSION_DICT_KEY_def)
  have "calls (snd (add_confession_to_archive (serving None) ?c (at_time saturday))) =
      calls (at_time saturday) @
        [ValuesAppend (self_id (serving None)) ARCHIVE_RANGE RAW_INPUT_OPTION
         \<lparr>body_values = [PStr ''D'',
            PStr (spec_published_timestamp
              (wall_clock (at_time saturday) (clock_reads (at_time saturday)))),
            PStr ''T'']\<rparr>]"
    using add_confession_to_archive_row [OF d t] by (rule conjunct1)
  also have "\<dots> = [ValuesAppend CONFESSIONS_SPREADSHEET_ID ''Archive!A:C'' ''RAW''
        \<lparr>body_values = [PStr ''D'', PStr ''02/056/2017 13:05:09'', PStr ''T'']\<rparr>]"
    by (simp add: spec_published_timestamp_saturday serving_def at_time_def ARCHIVE_RANGE_def
        RAW_INPUT_OPTION_def)
  finally show ?thesis .
qed

section \<open>The keys of a confession record\<close>

lemma data_lookup:
  "data n r ''Date Published'' = Some (PStr (r ! 0))"
  "data n r ''Confession'' = Some (PStr (r ! 1))"
  "data n r ''Line Number'' = Some (PInt (n + 1))"
  by (simp_all add: data_def DATE_PUBLISHED_DICT_KEY_def CONFESSION_DICT_KEY_def
      LINE_NUMBER_DICT_KEY_def DATE_RECEIVED_INDEX_def CONFESSION_INDEX_def)

lemma dom_data: "dom (data n r) = {''Date Published'', ''Confession'', ''Line Number''}"
  by (auto simp: data_def DATE_PUBLISHED_DICT_KEY_def CONFESSION_DICT_KEY_def
      LINE_NUMBER_DICT_KEY_def split: if_splits)

lemma in_ready_records:
  assumes "d \<in> set (map (\<lambda>(i, r). data (int i) r)
             (filter (\<lambda>(i, r). length r = CONFESSION_READY_LENGTH) (enumerate 0 rows)))"
  shows "\<exists>i<length rows. length (rows ! i) = 3 \<and> d = data (int i) (rows ! i)"
proof -
  from assms obtain i r where "(i, r) \<in> set (enumerate 0 rows)"
    and "length r = CONFESSION_READY_LENGTH" and "d = data (int i) r"
    by auto
  then show ?thesis
    by (auto simp: in_set_enumerate_eq CONFESSION_READY_LENGTH_def)
qed

lemma line_numbers_of_present:
  assumes "\<And>d. d \<in> set cs \<Longrightarrow> \<exists>v. d LINE_NUMBER_DICT_KEY = Some v"
  shows "\<exists>ns. line_numbers_of cs = Inr ns
     \<and> map Some ns = map (\<lambda>d. d LINE_NUMBER_DICT_KEY) cs"
  using assms
proof (induction cs)
  case Nil
  then show ?case by simp
next
  case (Cons c cs)
  obtain v where v: "c LINE_NUMBER_DICT_KEY = Some v" using Cons.prems [of c] by auto
  obtain ns where "line_numbers_of cs = Inr ns"
    "map Some ns = map (\<lambda>d. d LINE_NUMBER_DICT_KEY) cs"
    using Cons.IH Cons.prems by auto
  then show ?case using v by (simp add: subscript_def)
qed

lemma add_confession_to_archive_no_date:
  "c DATE_PUBLISHED_DICT_KEY = None \<Longrightarrow>
     fst (add_confession_to_archive self c w) = Inl (KeyError DATE_PUBLISHED_DICT_KEY)"
  by (simp add: add_confession_to_archive_def datetime_now_def subscript_def)

lemma add_confession_to_archive_no_text:
  "c DATE_PUBLISHED_DICT_KEY = Some D \<Longrightarrow> c CONFESSION_DICT_KEY = None \<Longrightarrow>
     fst (add_confession_to_archive self c w) = Inl (KeyError CONFESSION_DICT_KEY)"
  by (simp add: add_confession_to_archive_def datetime_now_def subscript_def)

lemma delete_confessions_from_pool_no_line:
  "c LINE_NUMBER_DICT_KEY = None \<Longrightarrow>
     fst (delete_confessions_from_pool self (c # rest) w) = Inl (KeyError LINE_NUMBER_DICT_KEY)"
  by (simp add: delete_confessions_from_pool_def subscript_def)

lemma snd_delete_confessions_from_pool:
  "snd (delete_confessions_from_pool self cs w) = w"
  by (simp add: delete_confessions_from_pool_def split: sum.splits)

lemma snd_archive_confessions:
  "snd (archive_confessions self cs w) = snd (archive_loop self cs w)"
proof (cases "archive_loop self cs w")
  case (Pair r w')
  then show ?thesis
    by (cases r) (simp_all add: archive_confessions_def snd_delete_confessions_from_pool)
qed

lemma archive_loop_single:
  "snd (archive_loop self [c] w) = snd (add_confession_to_archive self c w)"
proof (cases "add_confession_to_archive self c w")
  case (Pair r w')
  then show ?thesis by (cases r) simp_all
qed

lemma archive_confessions_no_date:
  assumes "c DATE_PUBLISHED_DICT_KEY = None"
  shows "fst (archive_confessions self (c # rest) w) = Inl (KeyError DATE_PUBLISHED_DICT_KEY)"
proof -
  have "add_confession_to_archive self c w =
      (Inl (KeyError DATE_PUBLISHED_DICT_KEY), w\<lparr>clock_reads := Suc (clock_reads w)\<rparr>)"
    using assms by (simp add: add_confession_to_archive_def datetime_now_def subscript_def)
  then show ?thesis by (simp add: archive_confessions_def)
qed

lemma archive_confessions_no_text:
  assumes "c DATE_PUBLISHED_DICT_KEY = Some D" and "c CONFESSION_DICT_KEY = None"
  shows "fst (archive_confessions self (c # rest) w) = Inl (KeyError CONFESSION_DICT_KEY)"
proof -
  have "add_confession_to_archive self c w =
      (Inl (KeyError CONFESSION_DICT_KEY), w\<lparr>clock_reads := Suc (clock_reads w)\<rparr>)"
    using assms by (simp add: add_confession_to_archive_def datetime_now_def subscript_def)
  then show ?thesis by (simp add: archive_confessions_def)
qed

lemma add_confession_to_archive_accepted:
  assumes "\<And>h c. \<exists>r. remote self h c = Inr r"
    and "d DATE_PUBLISHED_DICT_KEY \<noteq> None" and "d CONFESSION_DICT_KEY \<noteq> None"
  shows "add_confession_to_archive self d w =
     (Inr (), w\<lparr>clock_reads := Suc (clock_reads w),
                 calls := calls w @ [archive_call self (wall_clock w (clock_reads w)) d]\<rparr>)"
proof -
  obtain D T where D: "d DATE_PUBLISHED_DICT_KEY = Some D" and T: "d CONFESSION_DICT_KEY = Some T"
    using assms(2,3) by auto
  let ?call = "archive_call self (wall_clock w (clock_reads w)) d"
  obtain r where r: "remote self (calls w) ?call = Inr r"
    using assms(1) by blast
  show ?thesis
    using r D T
    by (simp add: add_confession_to_archive_present [OF D T] add_row_def execute_def Let_def
        archive_call_def)
qed

lemma archive_loop_accepted:
  assumes "\<And>h c. \<exists>r. remote self h c = Inr r"
    and "\<And>d. d \<in> set cs \<Longrightarrow> d DATE_PUBLISHED_DICT_KEY \<noteq> None \<and> d CONFESSION_DICT_KEY \<noteq> None"
  shows "archive_loop self cs w =
     (Inr (), w\<lparr>clock_reads := clock_reads w + length cs,
                 calls := calls w @
                   map (\<lambda>(k, d). archive_call self (wall_clock w k) d)
                     (enumerate (clock_reads w) cs)\<rparr>)"
  using assms(2)
proof (induction cs arbitrary: w)
  case Nil
  then show ?case by simp
next
  case (Cons d cs)
  let ?w1 = "w\<lparr>clock_reads := Suc (clock_reads w),
                 calls := calls w @ [archive_call self (wall_clock w (clock_reads w)) d]\<rparr>"
  have step: "add_confession_to_archive self d w = (Inr (), ?w1)"
    using add_confession_to_archive_accepted [OF assms(1), of d w] Cons.prems [of d] by simp
  have "archive_loop self cs ?w1 =
     (Inr (), ?w1\<lparr>clock_reads := clock_reads ?w1 + length cs,
                 calls := calls ?w1 @
                   map (\<lambda>(k, d). archive_call self (wall_clock ?w1 k) d)
                     (enumerate (clock_reads ?w1) cs)\<rparr>)"
    using Cons.IH [of ?w1] Cons.prems by simp
  then show ?case using step by simp
qed

lemma archive_confessions_accepted:
  assumes "\<And>h c. \<exists>r. remote self h c = Inr r"
    and "\<And>d. d \<in> set cs \<Longrightarrow> d DATE_PUBLISHED_DICT_KEY \<noteq> None \<and> d CONFESSION_DICT_KEY \<noteq> None"
  shows "fst (archive_confessions self cs w) =
       (case line_numbers_of cs of Inl e \<Rightarrow> Inl e | Inr ns \<Rightarrow> Inl (AttributeError ''delete_row''))
     \<and> calls (snd (archive_confessions self cs w)) =
         calls w @ map (\<lambda>(k, d). archive_call self (wall_clock w k) d)
                     (enumerate (clock_reads w) cs)"
  using archive_loop_accepted [OF assms, where w = w]
  by (simp add: archive_confessions_def delete_confessions_from_pool_def split: sum.splits)

lemma archive_confessions_no_line:
  assumes "\<And>h a. \<exists>r. remote self h a = Inr r"
    and "\<And>x. x \<in> set (c # rest) \<Longrightarrow>
      x DATE_PUBLISHED_DICT_KEY \<noteq> None \<and> x CONFESSION_DICT_KEY \<noteq> None"
    and "c LINE_NUMBER_DICT_KEY = None"
  shows "fst (archive_confessions self (c # rest) w) = Inl (KeyError LINE_NUMBER_DICT_KEY)"
proof -
  have ln: "line_numbers_of (c # rest) = Inl (KeyError LINE_NUMBER_DICT_KEY)"
    using assms(3) by (simp add: subscript_def)
  have "fst (archive_confessions self (c # rest) w) =
      (case line_numbers_of (c # rest) of
         Inl e \<Rightarrow> Inl e | Inr ns \<Rightarrow> Inl (AttributeError ''delete_row''))"
    using archive_confessions_accepted [where self = self and cs = "c # rest" and w = w]
      assms(1,2) by blast
  then show ?thesis unfolding ln by simp
qed

text \<open>
  C9. A record \<open>d\<close> returned by \<open>get_ready_confessions\<close> is a dictionary with exactly the
  keys \<open>"Date Published"\<close>, \<open>"Confession"\<close> and \<open>"Line Number"\<close>; cell 0 of its row, the
  date the confession was received, is the value under \<open>"Date Published"\<close>.
  \<open>archive_confessions\<close> reads the records back under the same keys. Given the record
  \<open>d\<close> alone it issues the append of the values under \<open>"Date Published"\<close> and
  \<open>"Confession"\<close>, as \<open>_add_confession_to_archive\<close> does. Given the whole returned list
  and a remote service that accepts every call, it appends those two values of every
  record, in order, finds every line number (no \<open>KeyError\<close>) and ends at the lookup of
  \<open>delete_row\<close>. And a list whose first dictionary \<open>c\<close> lacks one of the three keys
  makes \<open>archive_confessions\<close> raise \<open>KeyError\<close> for that key: at once for the date
  and the text, after the appends for the line number.
\<close>

theorem confession_record_keys:
  assumes "fst (get_data self READY_CONFESSIONS_A1_FORMAT w) = Inr rows"
    and "fst (get_ready_confessions self w) = Inr cs" and "d \<in> set cs"
  shows "dom d = {''Date Published'', ''Confession'', ''Line Number''}
    \<and> (\<exists>i<length rows. length (rows ! i) = 3
         \<and> d ''Date Published'' = Some (PStr (rows ! i ! 0))
         \<and> d ''Confession'' = Some (PStr (rows ! i ! 1))
         \<and> d ''Line Number'' = Some (PInt (int i + 1))
         \<and> calls (snd (add_confession_to_archive self' d w')) =
             calls w' @ [ValuesAppend (self_id self') ARCHIVE_RANGE RAW_INPUT_OPTION
               \<lparr>body_values = [PStr (rows ! i ! 0),
                  PStr (strftime (wall_clock w' (clock_reads w')) PUBLISHED_TIME_FORMAT),
                  PStr (rows ! i ! 1)]\<rparr>]
         \<and> calls (snd (archive_confessions self' [d] w')) =
             calls w' @ [ValuesAppend (self_id self') ARCHIVE_RANGE RAW_INPUT_OPTION
               \<lparr>body_values = [PStr (rows ! i ! 0),
                  PStr (strftime (wall_clock w' (clock_reads w')) PUBLISHED_TIME_FORMAT),
                  PStr (rows ! i ! 1)]\<rparr>])
    \<and> (\<exists>ns. line_numbers_of cs = Inr ns \<and> map Some ns = map (\<lambda>d. d ''Line Number'') cs)
    \<and> ((\<forall>h a. \<exists>r. remote self' h a = Inr r) \<longrightarrow>
         fst (archive_confessions self' cs w') = Inl (AttributeError ''delete_row'')
         \<and> calls (snd (archive_confessions self' cs w')) =
             calls w' @
             map (\<lambda>(k, d). ValuesAppend (self_id self') ARCHIVE_RANGE RAW_INPUT_OPTION
                    \<lparr>body_values = [the (d ''Date Published''),
                       PStr (strftime (wall_clock w' k) PUBLISHED_TIME_FORMAT),
                       the (d ''Confession'')]\<rparr>)
               (enumerate (clock_reads w') cs))
    \<and> (c ''Date Published'' = None \<longrightarrow>
         fst (add_confession_to_archive self' c w') = Inl (KeyError ''Date Published'')
         \<and> fst (archive_confessions self' (c # rest) w') = Inl (KeyError ''Date Published''))
    \<and> (c ''Date Published'' = Some D \<longrightarrow> c ''Confession'' = None \<longrightarrow>
         fst (add_confession_to_archive self' c w') = Inl (KeyError ''Confession'')
         \<and> fst (archive_confessions self' (c # rest) w') = Inl (KeyError ''Confession''))
    \<and> (c ''Line Number'' = None \<longrightarrow>
         fst (delete_confessions_from_pool self' (c # rest) w') =
           Inl (KeyError ''Line Number''))
    \<and> ((\<forall>h a. \<exists>r. remote self' h a = Inr r) \<longrightarrow>
        (\<forall>x\<in>set (c # rest). x ''Date Published'' \<noteq> None \<and> x ''Confession'' \<noteq> None) \<longrightarrow>
        c ''Line Number'' = None \<longrightarrow>
         fst (archive_confessions self' (c # rest) w') = Inl (KeyError ''Line Number''))"
proof -
  have cs: "cs = map (\<lambda>(i, r). data (int i) r)
             (filter (\<lambda>(i, r). length r = CONFESSION_READY_LENGTH) (enumerate 0 rows))"
    using fst_get_ready_confessions [OF assms(1)] assms(2) by simp
  obtain i where i: "i < length rows" "length (rows ! i) = 3" "d = data (int i) (rows ! i)"
    using in_ready_records assms(3) unfolding cs by blast
  have 1: "dom d = {''Date Published'', ''Confession'', ''Line Number''}"
    using i(3) by (simp add: dom_data)
  have look: "d ''Date Published'' = Some (PStr (rows ! i ! 0))"
    "d ''Confession'' = Some (PStr (rows ! i ! 1))"
    "d ''Line Number'' = Some (PInt (int i + 1))"
    using i(3) by (simp_all add: data_lookup)
  have one: "calls (snd (add_confession_to_archive self' d w')) =
             calls w' @ [ValuesAppend (self_id self') ARCHIVE_RANGE RAW_INPUT_OPTION
               \<lparr>body_values = [PStr (rows ! i ! 0),
                  PStr (strftime (wall_clock w' (clock_reads w')) PUBLISHED_TIME_FORMAT),
                  PStr (rows ! i ! 1)]\<rparr>]"
    using look(1,2)
    by (simp add: add_confession_to_archive_present
          [of d "PStr (rows ! i ! 0)" "PStr (rows ! i ! 1)"]
        calls_add_row DATE_PUBLISHED_DICT_KEY_def CONFESSION_DICT_KEY_def)
  have "snd (archive_confessions self' [d] w') = snd (add_confession_to_archive self' d w')"
    by (simp only: snd_archive_confessions archive_loop_single)
  then have whole: "calls (snd (archive_confessions self' [d] w')) =
             calls w' @ [ValuesAppend (self_id self') ARCHIVE_RANGE RAW_INPUT_OPTION
               \<lparr>body_values = [PStr (rows ! i ! 0),
                  PStr (strftime (wall_clock w' (clock_reads w')) PUBLISHED_TIME_FORMAT),
                  PStr (rows ! i ! 1)]\<rparr>]"
    using one by simp
  have 2: "\<exists>i<length rows. length (rows ! i) = 3
         \<and> d ''Date Published'' = Some (PStr (rows ! i ! 0))
         \<and> d ''Confession'' = Some (PStr (rows ! i ! 1))
         \<and> d ''Line Number'' = Some (PInt (int i + 1))
         \<and> calls (snd (add_confession_to_archive self' d w')) =
             calls w' @ [ValuesAppend (self_id self') ARCHIVE_RANGE RAW_INPUT_OPTION
               \<lparr>body_values = [PStr (rows ! i ! 0),
                  PStr (strftime (wall_clock w' (clock_reads w')) PUBLISHED_TIME_FORMAT),
                  PStr (rows ! i ! 1)]\<rparr>]
         \<and> calls (snd (archive_confessions self' [d] w')) =
             calls w' @ [ValuesAppend (self_id self') ARCHIVE_RANGE RAW_INPUT_OPTION
               \<lparr>body_values = [PStr (rows ! i ! 0),
                  PStr (strftime (wall_clock w' (clock_reads w')) PUBLISHED_TIME_FORMAT),
                  PStr (rows ! i ! 1)]\<rparr>]"
    using i(1,2) look one whole by blast
  have keys: "d' DATE_PUBLISHED_DICT_KEY \<noteq> None \<and> d' CONFESSION_DICT_KEY \<noteq> None
      \<and> (\<exists>v. d' LINE_NUMBER_DICT_KEY = Some v)" if mem: "d' \<in> set cs" for d'
  proof -
    obtain j where "d' = data (int j) (rows ! j)"
      using in_ready_records mem unfolding cs by blast
    then show ?thesis
      by (simp add: data_lookup DATE_PUBLISHED_DICT_KEY_def CONFESSION_DICT_KEY_def
          LINE_NUMBER_DICT_KEY_def)
  qed
  then have 3: "\<exists>ns. line_numbers_of cs = Inr ns
      \<and> map Some ns = map (\<lambda>d. d ''Line Number'') cs"
    using line_numbers_of_present [of cs] by (simp add: LINE_NUMBER_DICT_KEY_def)
  have 4: "(\<forall>h a. \<exists>r. remote self' h a = Inr r) \<longrightarrow>
         fst (archive_confessions self' cs w') = Inl (AttributeError ''delete_row'')
         \<and> calls (snd (archive_confessions self' cs w')) =
             calls w' @
             map (\<lambda>(k, d). ValuesAppend (self_id self') ARCHIVE_RANGE RAW_INPUT_OPTION
                    \<lparr>body_values = [the (d ''Date Published''),
                       PStr (strftime (wall_clock w' k) PUBLISHED_TIME_FORMAT),
                       the (d ''Confession'')]\<rparr>)
               (enumerate (clock_reads w') cs)"
  proof
    assume acc: "\<forall>h a. \<exists>r. remote self' h a = Inr r"
    obtain ns where ns: "line_numbers_of cs = Inr ns" using 3 by blast
    have "fst (archive_confessions self' cs w') =
       (case line_numbers_of cs of Inl e \<Rightarrow> Inl e | Inr ns \<Rightarrow> Inl (AttributeError ''delete_row''))
     \<and> calls (snd (archive_confessions self' cs w')) =
         calls w' @ map (\<lambda>(k, d). archive_call self' (wall_clock w' k) d)
                     (enumerate (clock_reads w') cs)"
      using archive_confessions_accepted [of self' cs w'] acc keys by blast
    then show "fst (archive_confessions self' cs w') = Inl (AttributeError ''delete_row'')
         \<and> calls (snd (archive_confessions self' cs w')) =
             calls w' @
             map (\<lambda>(k, d). ValuesAppend (self_id self') ARCHIVE_RANGE RAW_INPUT_OPTION
                    \<lparr>body_values = [the (d ''Date Published''),
                       PStr (strftime (wall_clock w' k) PUBLISHED_TIME_FORMAT),
                       the (d ''Confession'')]\<rparr>)
               (enumerate (clock_reads w') cs)"
      using ns
      by (simp add: archive_call_def DATE_PUBLISHED_DICT_KEY_def CONFESSION_DICT_KEY_def)
  qed
  have 5: "c ''Date Published'' = None \<longrightarrow>
         fst (add_confession_to_archive self' c w') = Inl (KeyError ''Date Published'')
         \<and> fst (archive_confessions self' (c # rest) w') = Inl (KeyError ''Date Published'')"
    using add_confession_to_archive_no_date [of c self' w']
      archive_confessions_no_date [of c self' rest w']
    by (simp add: DATE_PUBLISHED_DICT_KEY_def)
  have 6: "c ''Date Published'' = Some D \<longrightarrow> c ''Confession'' = None \<longrightarrow>
         fst (add_confession_to_archive self' c w') = Inl (KeyError ''Confession'')
         \<and> fst (archive_confessions self' (c # rest) w') = Inl (KeyError ''Confession'')"
    using add_confession_to_archive_no_text [of c D self' w']
      archive_confessions_no_text [of c D self' rest w']
    by (simp add: DATE_PUBLISHED_DICT_KEY_def CONFESSION_DICT_KEY_def)
  have 7: "c ''Line Number'' = None \<longrightarrow>
         fst (delete_confessions_from_pool self' (c # rest) w') =
           Inl (KeyError ''Line Number'')"
    using delete_confessions_from_pool_no_line [of c self' rest w']
    by (simp add: LINE_NUMBER_DICT_KEY_def)
  have 8: "(\<forall>h a. \<exists>r. remote self' h a = Inr r) \<longrightarrow>
        (\<forall>x\<in>set (c # rest). x ''Date Published'' \<noteq> None \<and> x ''Confession'' \<noteq> None) \<longrightarrow>
        c ''Line Number'' = None \<longrightarrow>
         fst (archive_confessions self' (c # rest) w') = Inl (KeyError ''Line Number'')"
    using archive_confessions_no_line [of self' c rest w']
    unfolding LINE_NUMBER_DICT_KEY_def DATE_PUBLISHED_DICT_KEY_def CONFESSION_DICT_KEY_def
    by blast
  show ?thesis by (intro conjI 1 2 3 4 5 6 7 8)
qed

text \<open>
  The record of the row \<open>["2023-01-01 10:00:00", "hello world", "x"]\<close> has the three keys
  and is archived up to the lookup of \<open>delete_row\<close>; a dictionary that stores the date
  under \<open>"Date Received"\<close> cannot be archived.
\<close>

theorem confession_record_keys_witness:
  "fst (get_ready_confessions (serving (Some hello_rows)) (at_time saturday)) =
     Inr [[''Date Published'' \<mapsto> PStr ''2023-01-01 10:00:00'',
           ''Confession'' \<mapsto> PStr ''hello world'',
           ''Line Number'' \<mapsto> PInt 1]]
   \<and> dom [''Date Published'' \<mapsto> PStr ''2023-01-01 10:00:00'',
           ''Confession'' \<mapsto> PStr ''hello world'',
           ''Line Number'' \<mapsto> PInt 1] = {''Date Published'', ''Confession'', ''Line Number''}
   \<and> fst (archive_confessions (serving None)
           [[''Date Published'' \<mapsto> PStr ''2023-01-01 10:00:00'',
             ''Confession'' \<mapsto> PStr ''hello world'',
             ''Line Number'' \<mapsto> PInt 1]]
           (at_time saturday)) = Inl (AttributeError ''delete_row'')
   \<and> fst (add_confession_to_archive (serving None)
           [''Date Received'' \<mapsto> PStr ''2023-01-01 10:00:00'',
            ''Confession'' \<mapsto> PStr ''hello world'']
           (at_time saturday)) = Inl (KeyError ''Date Published'')
   \<and> fst (archive_confessions (serving None)
           [[''Date Received'' \<mapsto> PStr ''2023-01-01 10:00:00'',
             ''Confession'' \<mapsto> PStr ''hello world'']]
           (at_time saturday)) = Inl (KeyError ''Date Published'')"
proof -
  let ?d = "[''Date Published'' \<mapsto> PStr ''2023-01-01 10:00:00'',
           ''Confession'' \<mapsto> PStr ''hello world'',
           ''Line Number'' \<mapsto> PInt 1]"
  let ?c = "[''Date Received'' \<mapsto> PStr ''2023-01-01 10:00:00'',
            ''Confession'' \<mapsto> PStr ''hello world'']"
  have h: "fst (get_data (serving (Some hello_rows)) READY_CONFESSIONS_A1_FORMAT (at_time saturday)) =
      Inr hello_rows"
    by (rule get_data_serving)
  have r: "fst (get_ready_confessions (serving (Some hello_rows)) (at_time saturday)) = Inr [?d]"
    using fst_get_ready_confessions [OF h]
    by (simp add: hello_rows_def CONFESSION_READY_LENGTH_def data_def DATE_PUBLISHED_DICT_KEY_def
        CONFESSION_DICT_KEY_def LINE_NUMBER_DICT_KEY_def DATE_RECEIVED_INDEX_def
        CONFESSION_INDEX_def)
  have m: "?d \<in> set [?d]" by simp
  have n: "?c ''Date Published'' = None" by simp
  have a: "\<forall>h a. \<exists>r. remote (serving None) h a = Inr r" by (simp add: serving_def)
  note keys = confession_record_keys
    [OF h r m, where c = ?c and self' = "serving None" and w' = "at_time saturday"
      and rest = "[]"]
  have 1: "dom ?d = {''Date Published'', ''Confession'', ''Line Number''}"
    using keys by (rule conjunct1)
  have "(\<forall>h a. \<exists>r. remote (serving None) h a = Inr r) \<longrightarrow>
      fst (archive_confessions (serving None) [?d] (at_time saturday)) =
        Inl (AttributeError ''delete_row'')
      \<and> calls (snd (archive_confessions (serving None) [?d] (at_time saturday))) =
          calls (at_time saturday) @
          map (\<lambda>(k, d). ValuesAppend (self_id (serving None)) ARCHIVE_RANGE RAW_INPUT_OPTION
                 \<lparr>body_values = [the (d ''Date Published''),
                    PStr (strftime (wall_clock (at_time saturday) k) PUBLISHED_TIME_FORMAT),
                    the (d ''Confession'')]\<rparr>)
            (enumerate (clock_reads (at_time saturday)) [?d])"
    using keys [THEN conjunct2, THEN conjunct2, THEN conjunct2] by (rule conjunct1)
  then have 2: "fst (archive_confessions (serving None) [?d] (at_time saturday)) =
        Inl (AttributeError ''delete_row'')"
    using a by (elim impE conjE)
  have "?c ''Date Published'' = None \<longrightarrow>
      fst (add_confession_to_archive (serving None) ?c (at_time saturday)) =
        Inl (KeyError ''Date Published'')
      \<and> fst (archive_confessions (serving None) [?c] (at_time saturday)) =
        Inl (KeyError ''Date Published'')"
    using keys [THEN conjunct2, THEN conjunct2, THEN conjunct2, THEN conjunct2]
    by (rule conjunct1)
  then have 3: "fst (add_confession_to_archive (serving None) ?c (at_time saturday)) =
        Inl (KeyError ''Date Published'')
      \<and> fst (archive_confessions (serving None) [?c] (at_time saturday)) =
        Inl (KeyError ''Date Published'')"
    using n by (rule mp)
  show ?thesis by (intro conjI r 1 2 3 [THEN conjunct1] 3 [THEN conjunct2])
qed

section \<open>Archiving a list of confessions\<close>

lemma no_batch_add_confession_to_archive:
  "filter is_batch_update (calls (snd (add_confession_to_archive self c w))) =
     filter is_batch_update (calls w)"
  by (simp add: add_confession_to_archive_def datetime_now_def calls_add_row
      split: sum.splits)

lemma no_batch_archive_loop:
  "filter is_batch_update (calls (snd (archive_loop self cs w))) =
     filter is_batch_update (calls w)"
proof (induction cs arbitrary: w)
  case Nil
  then show ?case by simp
next
  case (Cons c cs)
  show ?case
  proof (cases "add_confession_to_archive self c w")
    case (Pair r w')
    then have "filter is_batch_update (calls w') = filter is_batch_update (calls w)"
      using no_batch_add_confession_to_archive [of self c w] by simp
    then show ?thesis using Pair Cons.IH [of w'] by (cases r) simp_all
  qed
qed

lemma delete_confessions_from_pool_fails:
  "\<exists>e. delete_confessions_from_pool self cs w = (Inl e, w)"
  by (simp add: delete_confessions_from_pool_def split: sum.splits)

text \<open>
  C1. Archiving is meant to append every record and then delete their rows in one
  batched call. The code appends the archive rows in input order, but where it should
  delete it looks up \<open>delete_row\<close>, a
  method that does not exist (\<open>Sheet\<close> has \<open>delete_rows\<close>). So for every list of records,
  every remote service and every state of the world, \<open>archive_confessions\<close> ends in an
  exception, and it adds no batch update to the calls issued: nothing is ever deleted.
\<close>

theorem archive_confessions_never_deletes:
  "(\<exists>e. fst (archive_confessions self confessions w) = Inl e)
   \<and> filter is_batch_update (calls (snd (archive_confessions self confessions w))) =
       filter is_batch_update (calls w)"
proof (cases "archive_loop self confessions w")
  case (Pair r w')
  then have nb: "filter is_batch_update (calls w') = filter is_batch_update (calls w)"
    using no_batch_archive_loop [of self confessions w] by simp
  show ?thesis
  proof (cases r)
    case (Inl e)
    then show ?thesis using Pair nb by (simp add: archive_confessions_def)
  next
    case (Inr u)
    obtain e where "delete_confessions_from_pool self confessions w' = (Inl e, w')"
      using delete_confessions_from_pool_fails by blast
    then show ?thesis using Pair Inr nb by (simp add: archive_confessions_def)
  qed
qed

text \<open>
  Two ready records, a remote service that accepts every call: both rows are appended,
  in order, then \<open>AttributeError\<close> is raised, and the calls issued hold no deletion.
\<close>

theorem archive_confessions_never_deletes_witness:
  "fst (archive_confessions (serving None) two_ready (at_time saturday)) =
     Inl (AttributeError ''delete_row'')
   \<and> calls (snd (archive_confessions (serving None) two_ready (at_time saturday))) =
       [ValuesAppend CONFESSIONS_SPREADSHEET_ID ''Archive!A:C'' ''RAW''
          \<lparr>body_values = [PStr ''d2'', PStr ''02/056/2017 13:05:09'', PStr ''c2'']\<rparr>,
        ValuesAppend CONFESSIONS_SPREADSHEET_ID ''Archive!A:C'' ''RAW''
          \<lparr>body_values = [PStr ''d3'', PStr ''02/056/2017 13:05:09'', PStr ''c3'']\<rparr>]"
  using archive_confessions_never_deletes [of "serving None" two_ready "at_time saturday"]
  by (simp add: archive_confessions_def two_ready_def add_confession_to_archive_def
      datetime_now_def subscript_def add_row_def execute_def serving_def at_time_def
      delete_confessions_from_pool_def strftime_published spec_published_timestamp_saturday
      DATE_PUBLISHED_DICT_KEY_def CONFESSION_DICT_KEY_def LINE_NUMBER_DICT_KEY_def
      ARCHIVE_RANGE_def RAW_INPUT_OPTION_def)

text \<open>
  C6. On an empty fetched range \<open>get_ready_confessions\<close> returns the empty list. On the
  empty list \<open>archive_confessions\<close> appends nothing and issues no deletion, leaving the
  world as it was, but it does not complete: the lookup of \<open>delete_row\<close> raises
  \<open>AttributeError\<close>.
\<close>

theorem archive_confessions_empty_raises:
  "archive_confessions self [] w = (Inl (AttributeError ''delete_row''), w)
   \<and> (fst (get_data self READY_CONFESSIONS_A1_FORMAT w) = Inr [] \<longrightarrow>
        fst (get_ready_confessions self w) = Inr [])"
  by (cases "get_data self READY_CONFESSIONS_A1_FORMAT w")
     (auto simp: archive_confessions_def delete_confessions_from_pool_def
        get_ready_confessions_def)

theorem archive_confessions_empty_raises_witness:
  "archive_confessions (serving (Some [])) [] (at_time saturday) =
     (Inl (AttributeError ''delete_row''), at_time saturday)
   \<and> fst (get_data (serving (Some [])) READY_CONFESSIONS_A1_FORMAT (at_time saturday)) = Inr []
   \<and> fst (get_ready_confessions (serving (Some [])) (at_time saturday)) = Inr []"
  using archive_confessions_empty_raises [of "serving (Some [])" "at_time saturday"]
    get_data_serving [of "[]"]
  by simp

end
